theory Spec2Isabelle
  imports Complex_Main "HOL-Library.Sublist"
begin

section \<open>Python values handled by \<^verbatim>\<open>app.py\<close>\<close>

text \<open>
  The handlers of \<^verbatim>\<open>app.py\<close> work on values parsed from JSON (the weather provider's
  reply, the request bodies of \<^verbatim>\<open>/daily-care\<close> and \<^verbatim>\<open>/plant-selector\<close>). A JSON number
  is a Python \<^verbatim>\<open>int\<close> or \<^verbatim>\<open>float\<close>; the handlers only compare numbers with integer
  thresholds, which Python does exactly, so a finite number is modelled by its rational
  value. Python's JSON parser also yields the floats \<^verbatim>\<open>inf\<close>, \<^verbatim>\<open>-inf\<close> and \<^verbatim>\<open>nan\<close>.

  A Python string is kept as its UTF-8 bytes: a \<open>char\<close> below 128 is an ASCII character,
  and every other character is a lead byte from 192 on followed by continuation bytes
  between 128 and 191. Equality of strings and the search for an ASCII substring are the
  same on the bytes as on the characters.
\<close>

datatype pynum = Finite rat | PosInf | NegInf | NaN

datatype json =
    JNull
  | JBool bool
  | JNum pynum
  | JStr string
  | JArr "json list"
  | JObj "(string \<times> json) list"

text \<open>
  The exceptions the handlers can meet. \<open>Upstream_error\<close> stands for any exception raised
  by \<^verbatim>\<open>requests.get\<close>, \<^verbatim>\<open>requests.post\<close> or \<^verbatim>\<open>response.json()\<close>, with its text, and
  \<open>OSError\<close> for any exception raised by a file-system call.
\<close>

datatype exn =
  KeyError string | IndexError | TypeError | AttributeError | Upstream_error string | OSError string

text \<open>\<^verbatim>\<open>x < c\<close> and \<^verbatim>\<open>x > c\<close> on floats: every comparison with \<^verbatim>\<open>nan\<close> is false.\<close>

fun num_lt :: "pynum \<Rightarrow> rat \<Rightarrow> bool" where
  "num_lt (Finite x) c = (x < c)"
| "num_lt PosInf c = False"
| "num_lt NegInf c = True"
| "num_lt NaN c = False"

fun num_gt :: "pynum \<Rightarrow> rat \<Rightarrow> bool" where
  "num_gt (Finite x) c = (c < x)"
| "num_gt PosInf c = True"
| "num_gt NegInf c = False"
| "num_gt NaN c = False"

text \<open>
  \<^verbatim>\<open>v < c\<close> and \<^verbatim>\<open>v > c\<close> for a parsed JSON value \<open>v\<close> and an integer literal \<open>c\<close>:
  \<^verbatim>\<open>bool\<close> is a subclass of \<^verbatim>\<open>int\<close> (\<^verbatim>\<open>True == 1\<close>); \<^verbatim>\<open>None\<close>, strings, lists and
  dicts raise \<^verbatim>\<open>TypeError\<close>.
\<close>

fun py_lt :: "json \<Rightarrow> rat \<Rightarrow> exn + bool" where
  "py_lt (JNum n) c = Inr (num_lt n c)"
| "py_lt (JBool b) c = Inr ((if b then 1 else 0) < c)"
| "py_lt v c = Inl TypeError"

fun py_gt :: "json \<Rightarrow> rat \<Rightarrow> exn + bool" where
  "py_gt (JNum n) c = Inr (num_gt n c)"
| "py_gt (JBool b) c = Inr (c < (if b then 1 else 0))"
| "py_gt v c = Inl TypeError"

text \<open>Truth value of a Python object, as \<^verbatim>\<open>not x\<close> and \<^verbatim>\<open>if x\<close> use it.\<close>

fun truthy :: "json \<Rightarrow> bool" where
  "truthy JNull = False"
| "truthy (JBool b) = b"
| "truthy (JNum (Finite x)) = (x \<noteq> 0)"
| "truthy (JNum n) = True"
| "truthy (JStr s) = (s \<noteq> [])"
| "truthy (JArr xs) = (xs \<noteq> [])"
| "truthy (JObj kvs) = (kvs \<noteq> [])"

text \<open>
  \<^verbatim>\<open>v[k]\<close> with a string key: a dict looks the key up (\<^verbatim>\<open>KeyError\<close> when absent); a list
  or a string refuses a string index and every other value is not subscriptable, both
  with \<^verbatim>\<open>TypeError\<close>. A parsed dict is kept as its list of items.
\<close>

fun getitem :: "json \<Rightarrow> string \<Rightarrow> exn + json" where
  "getitem (JObj kvs) k = (case map_of kvs k of None \<Rightarrow> Inl (KeyError k) | Some v \<Rightarrow> Inr v)"
| "getitem v k = Inl TypeError"

text \<open>
  \<^verbatim>\<open>v[0]\<close>: the first element of a list, the first character of a string (its first
  byte and the continuation bytes that follow; \<^verbatim>\<open>IndexError\<close> when empty); a dict parsed
  from JSON has string keys only, so \<^verbatim>\<open>0\<close> is a \<^verbatim>\<open>KeyError\<close>; the other values are not
  subscriptable.
\<close>

definition continuation :: "char \<Rightarrow> bool" where
  "continuation c = (128 \<le> (of_char c :: nat) \<and> (of_char c :: nat) < 192)"

fun getitem0 :: "json \<Rightarrow> exn + json" where
  "getitem0 (JArr []) = Inl IndexError"
| "getitem0 (JArr (x # xs)) = Inr x"
| "getitem0 (JStr []) = Inl IndexError"
| "getitem0 (JStr (c # cs)) = Inr (JStr (c # takeWhile continuation cs))"
| "getitem0 (JObj kvs) = Inl (KeyError ''0'')"
| "getitem0 v = Inl TypeError"

text \<open>\<^verbatim>\<open>d.get(k)\<close> and \<^verbatim>\<open>d.get(k, default)\<close>: only a dict has the method.\<close>

fun py_get :: "json \<Rightarrow> string \<Rightarrow> json \<Rightarrow> exn + json" where
  "py_get (JObj kvs) k dflt = (case map_of kvs k of None \<Rightarrow> Inr dflt | Some v \<Rightarrow> Inr v)"
| "py_get v k dflt = Inl AttributeError"

subsection \<open>Strings\<close>

text \<open>
  \<^verbatim>\<open>str.lower()\<close>. An ASCII character is lowercased by the ASCII table, whatever stands
  around it: \<^verbatim>\<open>A\<close> to \<^verbatim>\<open>Z\<close> become \<^verbatim>\<open>a\<close> to \<^verbatim>\<open>z\<close> and the others are kept.
\<close>

definition lower_ascii :: "char \<Rightarrow> char" where
  "lower_ascii c =
     (let n = (of_char c :: nat) in if 65 \<le> n \<and> n \<le> 90 then char_of (n + 32) else c)"

text \<open>
  What \<^verbatim>\<open>str.lower()\<close> puts in place of a character outside ASCII comes from the Unicode
  database of the Python runtime, which is no part of this repository: it is a parameter
  of the model. The table is asked once for every byte from 128 on, with the bytes before
  it and the bytes after it (the lowercase of a letter can depend on its neighbours, as
  for the Greek capital sigma, and can hold ASCII letters, as for the Kelvin sign), and
  answers with the bytes that replace it: for Python's table, the lowercased character at
  its lead byte and nothing at its continuation bytes. Nothing is assumed of the table:
  every theorem below holds for every table, and so for Python's.
\<close>

type_synonym lower_table = "string \<Rightarrow> char \<Rightarrow> string \<Rightarrow> string"

fun lower_from :: "lower_table \<Rightarrow> string \<Rightarrow> string \<Rightarrow> string" where
  "lower_from tbl pre [] = []"
| "lower_from tbl pre (c # cs) =
     (if (of_char c :: nat) < 128 then [lower_ascii c] else tbl pre c cs)
     @ lower_from tbl (pre @ [c]) cs"

definition lower :: "lower_table \<Rightarrow> string \<Rightarrow> string" where
  "lower tbl s = lower_from tbl [] s"

text \<open>\<^verbatim>\<open>v.lower()\<close> on a parsed value: only a string has the method.\<close>

fun py_lower :: "lower_table \<Rightarrow> json \<Rightarrow> exn + string" where
  "py_lower tbl (JStr s) = Inr (lower tbl s)"
| "py_lower tbl v = Inl AttributeError"

text \<open>\<^verbatim>\<open>pat in s\<close> on strings: \<open>pat\<close> occurs in \<open>s\<close> as a contiguous substring.\<close>

fun starts_with :: "string \<Rightarrow> string \<Rightarrow> bool" where
  "starts_with [] s = True"
| "starts_with (p # ps) [] = False"
| "starts_with (p # ps) (c # cs) = (p = c \<and> starts_with ps cs)"

fun py_in :: "string \<Rightarrow> string \<Rightarrow> bool" where
  "py_in pat [] = (pat = [])"
| "py_in pat (c # cs) = (starts_with pat (c # cs) \<or> py_in pat cs)"

section \<open>The advisory rules\<close>

text \<open>
  The tips are fixed strings of the source; each is named here after its rule.
  \<^item> \<^verbatim>\<open>get_weather\<close>: \<open>Heat_tip\<close> "It's hot! Water your plants early morning or late
    evening.", \<open>Frost_tip\<close> "Cold alert! Protect your plants from frost.", \<open>Usual_tip\<close>
    "Normal weather. Water as usual.", \<open>Rain_tip\<close> "It's raining. Reduce watering.",
    \<open>Ventilation_tip\<close> "High humidity. Improve ventilation to avoid fungal diseases."
  \<^item> \<^verbatim>\<open>watering_alert\<close>: \<open>Water_today\<close> "It's dry and warm. Water your plants today!",
    \<open>Hold_off\<close> "It's very humid. Hold off on watering.", \<open>No_need\<close> "It's rainy. No need
    to water today.", \<open>Check_soil\<close> "Check soil moisture before watering."
  \<^item> \<^verbatim>\<open>daily_care\<close>: \<open>Cactus_base\<close> "Minimal watering needed. Great for dry conditions.",
    \<open>Reduce_watering\<close> "Reduce watering. Humidity is high.", \<open>Fern_base\<close> "Keep soil moist.
    Foliage loves humidity.", \<open>Mist\<close> "Mist your plant to maintain moisture.",
    \<open>Other_base\<close> "Water when top soil is dry.", \<open>Cold_draft\<close> "Keep your plant away from
    cold drafts."
  The fifteen strings are pairwise different in the source (each also starts with an
  emoji), as the fifteen constructors are.
\<close>

datatype tip =
    Heat_tip | Frost_tip | Usual_tip | Rain_tip | Ventilation_tip
  | Water_today | Hold_off | No_need | Check_soil
  | Cactus_base | Reduce_watering | Fern_base | Mist | Other_base | Cold_draft

text \<open>
  The rules of \<^verbatim>\<open>get_weather\<close> (lines 145 to 156), on the three values read from the
  provider's reply. \<^verbatim>\<open>tips.append\<close> is \<open>@\<close>; a comparison or \<^verbatim>\<open>.lower()\<close> that raises
  ends the evaluation.
\<close>

definition weather_tips :: "lower_table \<Rightarrow> json \<Rightarrow> json \<Rightarrow> json \<Rightarrow> exn + tip list" where
  "weather_tips tbl temperature weather_desc humidity =
     (case py_gt temperature 30 of Inl e \<Rightarrow> Inl e | Inr hot \<Rightarrow>
      (case (if hot then Inr [Heat_tip]
             else (case py_lt temperature 10 of Inl e \<Rightarrow> Inl e | Inr cold \<Rightarrow>
                     Inr (if cold then [Frost_tip] else [Usual_tip]))) of
         Inl e \<Rightarrow> Inl e
       | Inr tips1 \<Rightarrow>
      (case py_lower tbl weather_desc of Inl e \<Rightarrow> Inl e | Inr d \<Rightarrow>
      (let tips2 = (if py_in ''rain'' d then tips1 @ [Rain_tip] else tips1) in
      (case py_gt humidity 80 of Inl e \<Rightarrow> Inl e | Inr humid \<Rightarrow>
         Inr (if humid then tips2 @ [Ventilation_tip] else tips2))))))"

text \<open>
  The rule chain of \<^verbatim>\<open>watering_alert\<close> (lines 56 to 63). \<^verbatim>\<open>and\<close> does not evaluate its
  right operand when the left one is false, and an \<^verbatim>\<open>elif\<close> is evaluated only when the
  conditions before it were false.
\<close>

definition watering_tip :: "lower_table \<Rightarrow> json \<Rightarrow> json \<Rightarrow> json \<Rightarrow> exn + tip" where
  "watering_tip tbl temp humidity weather =
     (case py_lt humidity 50 of Inl e \<Rightarrow> Inl e | Inr dry \<Rightarrow>
      (case (if dry then py_gt temp 20 else Inr False) of Inl e \<Rightarrow> Inl e | Inr dry_and_warm \<Rightarrow>
       if dry_and_warm then Inr Water_today
       else (case py_gt humidity 80 of Inl e \<Rightarrow> Inl e | Inr humid \<Rightarrow>
             if humid then Inr Hold_off
             else (case py_lower tbl weather of Inl e \<Rightarrow> Inl e | Inr d \<Rightarrow>
                   if py_in ''rain'' d then Inr No_need else Inr Check_soil))))"

text \<open>The plant-type rules of \<^verbatim>\<open>daily_care\<close> (lines 99 to 112).\<close>

definition care_suggestions :: "lower_table \<Rightarrow> json \<Rightarrow> json \<Rightarrow> json \<Rightarrow> exn + tip list" where
  "care_suggestions tbl plant_type temperature humidity =
     (case py_lower tbl plant_type of Inl e \<Rightarrow> Inl e | Inr p \<Rightarrow>
      if p = ''cactus'' then
        (case py_gt humidity 70 of Inl e \<Rightarrow> Inl e | Inr b \<Rightarrow>
           Inr (if b then [Cactus_base] @ [Reduce_watering] else [Cactus_base]))
      else if p = ''fern'' then
        (case py_lt humidity 50 of Inl e \<Rightarrow> Inl e | Inr b \<Rightarrow>
           Inr (if b then [Fern_base] @ [Mist] else [Fern_base]))
      else
        (case py_lt temperature 10 of Inl e \<Rightarrow> Inl e | Inr b \<Rightarrow>
           Inr (if b then [Other_base] @ [Cold_draft] else [Other_base])))"

section \<open>The world around a handler\<close>

text \<open>
  What an upstream call does: \<^verbatim>\<open>requests.get\<close> or \<^verbatim>\<open>requests.post\<close> raises, or it
  returns a response with a status code whose \<^verbatim>\<open>.json()\<close> raises or yields the parsed
  body.
\<close>

datatype reply = Request_raises exn | Reply nat "exn + json"

text \<open>An uploaded file (\<^verbatim>\<open>request.files.get("image")\<close>): its name and its bytes.\<close>

record upload =
  filename :: string
  content :: string

text \<open>
  The effects a handler performs, in order; a call that raises is in the list too.
  \<open>Requests_get scheme city key\<close> is the request to
  \<^verbatim>\<open>{scheme}://api.openweathermap.org/data/2.5/weather?q={city}&appid={key}&units=metric\<close>
  and \<open>Requests_post bytes\<close> the request to the inference API with the image bytes.
  \<open>Makedirs\<close> is \<^verbatim>\<open>os.makedirs(path, exist_ok=True)\<close>, \<open>Write_file\<close> is opening a file for
  writing and writing a text to it, \<open>Save_upload\<close> is \<^verbatim>\<open>image_file.save(path)\<close>.
\<close>

datatype effect =
    Requests_post string
  | Requests_get string json "string option"
  | Makedirs string
  | Write_file string string
  | Save_upload string string

text \<open>
  The JSON payloads the handlers build with \<^verbatim>\<open>jsonify\<close>. \<open>Error msg None\<close> is
  \<^verbatim>\<open>{"error": msg}\<close> and \<open>Error msg (Some e)\<close> is \<^verbatim>\<open>{"error": msg, "details": str(e)}\<close>;
  the other constructors list the values of the fields in the order of the source.
\<close>

datatype payload =
    Error json "exn option"
  | Prediction json
  | Watering_alert json json json tip
  | Daily_care json json json json json "tip list"
  | Weather json json json "tip list"
  | Journal_saved string bool
  | Plant_selection string string "string list"

text \<open>
  A handler either returns a payload with its HTTP status (200 unless the handler says
  otherwise) or lets an exception escape (\<open>Inl\<close>); with it, the effects it performed.
\<close>

type_synonym outcome = "(exn + payload \<times> nat) \<times> effect list"

text \<open>
  What the file system does with a call: it succeeds (\<open>None\<close>) or it raises. A handler is
  given this as a function of the call.
\<close>

type_synonym file_system = "effect \<Rightarrow> exn option"

text \<open>\<^verbatim>\<open>data[a][b]\<close> and \<^verbatim>\<open>data["weather"][0]["description"]\<close>.\<close>

definition getitem2 :: "json \<Rightarrow> string \<Rightarrow> string \<Rightarrow> exn + json" where
  "getitem2 data a b = (case getitem data a of Inl e \<Rightarrow> Inl e | Inr m \<Rightarrow> getitem m b)"

definition weather_description :: "json \<Rightarrow> exn + json" where
  "weather_description data =
     (case getitem data ''weather'' of Inl e \<Rightarrow> Inl e | Inr ws \<Rightarrow>
      (case getitem0 ws of Inl e \<Rightarrow> Inl e | Inr w \<Rightarrow> getitem w ''description''))"

text \<open>\<^verbatim>\<open>not api_key\<close> for the value of \<^verbatim>\<open>os.getenv\<close>: unset or empty.\<close>

definition no_key :: "string option \<Rightarrow> bool" where
  "no_key api_key = (api_key = None \<or> api_key = Some [])"

section \<open>The handlers\<close>

text \<open>
  \<^verbatim>\<open>predict\<close> (lines 23 to 34). \<open>image_file\<close> is the uploaded image's bytes, \<open>None\<close> when
  the request has no such file; \<open>api\<close> is what the inference API does when called.
\<close>

definition predict :: "string option \<Rightarrow> reply \<Rightarrow> outcome" where
  "predict image_file api =
     (case image_file of
        None \<Rightarrow> (Inr (Error (JStr ''No image file provided'') None, 200), [])
      | Some image_bytes \<Rightarrow>
          (case (case api of
                   Request_raises e \<Rightarrow> Inl e
                 | Reply status_code body \<Rightarrow>
                     (case body of Inl e \<Rightarrow> Inl e | Inr parsed \<Rightarrow>
                      (case getitem0 parsed of Inl e \<Rightarrow> Inl e | Inr first \<Rightarrow>
                         getitem first ''label''))) of
             Inl e \<Rightarrow> Inr (Error (JStr ''Prediction failed'') (Some e), 200)
           | Inr prediction \<Rightarrow> Inr (Prediction prediction, 200),
           [Requests_post image_bytes]))"

text \<open>
  \<^verbatim>\<open>watering_alert\<close> (lines 38 to 73). \<open>city_arg\<close> is the query parameter \<^verbatim>\<open>city\<close>,
  \<open>api_key\<close> the value of \<^verbatim>\<open>os.getenv("OPENWEATHER_API_KEY")\<close>, \<open>tbl\<close> the lowercase
  table of the runtime, here and in the handlers below.
\<close>

definition watering_alert ::
  "lower_table \<Rightarrow> string option \<Rightarrow> string option \<Rightarrow> reply \<Rightarrow> outcome" where
  "watering_alert tbl city_arg api_key api =
     (let city = (case city_arg of None \<Rightarrow> ''London'' | Some c \<Rightarrow> c) in
      if no_key api_key then (Inr (Error (JStr ''Missing OpenWeather API key.'') None, 200), [])
      else
        (case (case api of
                 Request_raises e \<Rightarrow> Inl e
               | Reply status_code body \<Rightarrow>
                   (case body of Inl e \<Rightarrow> Inl e | Inr data \<Rightarrow>
                    (case getitem2 data ''main'' ''temp'' of Inl e \<Rightarrow> Inl e | Inr temp \<Rightarrow>
                    (case getitem2 data ''main'' ''humidity'' of Inl e \<Rightarrow> Inl e | Inr humidity \<Rightarrow>
                    (case weather_description data of Inl e \<Rightarrow> Inl e | Inr weather \<Rightarrow>
                    (case watering_tip tbl temp humidity weather of Inl e \<Rightarrow> Inl e | Inr tip \<Rightarrow>
                       Inr (Watering_alert temp humidity weather tip, 200))))))) of
           Inl e \<Rightarrow> Inr (Error (JStr ''Failed to get weather data'') (Some e), 200)
         | Inr response \<Rightarrow> Inr response,
         [Requests_get ''https'' (JStr city) api_key]))"

text \<open>
  \<^verbatim>\<open>daily_care\<close> (lines 77 to 121). \<open>data\<close> is the parsed request body. The handler has
  no \<^verbatim>\<open>try\<close>: every exception escapes. \<^verbatim>\<open>weather_response.json()\<close> runs before the
  status code is looked at.
\<close>

definition daily_care :: "lower_table \<Rightarrow> json \<Rightarrow> string option \<Rightarrow> reply \<Rightarrow> outcome" where
  "daily_care tbl data weather_api_key api =
     (case py_get data ''city'' JNull of Inl e \<Rightarrow> (Inl e, []) | Inr city \<Rightarrow>
     (case py_get data ''plant_type'' JNull of Inl e \<Rightarrow> (Inl e, []) | Inr plant_type \<Rightarrow>
      if \<not> truthy city \<or> \<not> truthy plant_type
      then (Inr (Error (JStr ''City and plant type are required.'') None, 200), [])
      else
        (case api of
           Request_raises e \<Rightarrow> Inl e
         | Reply status_code body \<Rightarrow>
             (case body of Inl e \<Rightarrow> Inl e | Inr weather_data \<Rightarrow>
              if status_code \<noteq> 200
              then Inr (Error (JStr ''Failed to fetch weather data.'') None, 200)
              else
               (case getitem2 weather_data ''main'' ''temp'' of Inl e \<Rightarrow> Inl e | Inr temperature \<Rightarrow>
               (case getitem2 weather_data ''main'' ''humidity'' of Inl e \<Rightarrow> Inl e | Inr humidity \<Rightarrow>
               (case weather_description weather_data of Inl e \<Rightarrow> Inl e | Inr description \<Rightarrow>
               (case care_suggestions tbl plant_type temperature humidity of
                  Inl e \<Rightarrow> Inl e
                | Inr suggestions \<Rightarrow>
                    Inr (Daily_care plant_type city temperature humidity description suggestions,
                         200)))))),
         [Requests_get ''https'' city weather_api_key])))"

text \<open>
  \<^verbatim>\<open>get_weather\<close> (lines 125 to 166). \<open>api_key\<close> is the module constant
  \<^verbatim>\<open>OPENWEATHER_API_KEY\<close>.
\<close>

definition get_weather ::
  "lower_table \<Rightarrow> string option \<Rightarrow> string option \<Rightarrow> reply \<Rightarrow> outcome" where
  "get_weather tbl city_arg api_key api =
     (let city = (case city_arg of None \<Rightarrow> ''London'' | Some c \<Rightarrow> c) in
      if no_key api_key
      then (Inr (Error (JStr ''OpenWeather API key is missing in .env'') None, 200), [])
      else
        (case (case api of
                 Request_raises e \<Rightarrow> Inl e
               | Reply status_code body \<Rightarrow>
                   (case body of Inl e \<Rightarrow> Inl e | Inr data \<Rightarrow>
                    if status_code \<noteq> 200
                    then (case py_get data ''message'' (JStr ''Unable to fetch weather'') of
                            Inl e \<Rightarrow> Inl e
                          | Inr msg \<Rightarrow> Inr (Error msg None, 200))
                    else
                     (case getitem2 data ''main'' ''temp'' of Inl e \<Rightarrow> Inl e | Inr temperature \<Rightarrow>
                     (case weather_description data of Inl e \<Rightarrow> Inl e | Inr weather_desc \<Rightarrow>
                     (case getitem2 data ''main'' ''humidity'' of Inl e \<Rightarrow> Inl e | Inr humidity \<Rightarrow>
                     (case weather_tips tbl temperature weather_desc humidity of
                        Inl e \<Rightarrow> Inl e
                      | Inr tips \<Rightarrow> Inr (Weather temperature weather_desc humidity tips, 200))))))) of
           Inl e \<Rightarrow> Inr (Error (JStr ''Weather fetch failed'') (Some e), 200)
         | Inr response \<Rightarrow> Inr response,
         [Requests_get ''http'' (JStr city) api_key]))"

text \<open>
  \<^verbatim>\<open>plant_journal\<close> (lines 171 to 195). \<open>note\<close> is the form field, \<open>timestamp\<close> the
  formatted clock reading, \<open>fs\<close> the file system. An uploaded file is true, for
  \<^verbatim>\<open>if image_file\<close> and \<^verbatim>\<open>bool(image_file)\<close>, when its name is not empty. \<^verbatim>\<open>os.path.join\<close> returns its second argument when that is an absolute
  path. The handler has no \<^verbatim>\<open>try\<close>: an exception of a file-system call escapes and the
  calls after it are not made.
\<close>

definition path_join :: "string \<Rightarrow> string \<Rightarrow> string" where
  "path_join a b =
     (if starts_with ''/'' b then b
      else if a = [] \<or> last a = CHR ''/'' then a @ b
      else a @ ''/'' @ b)"

definition plant_journal ::
  "file_system \<Rightarrow> string option \<Rightarrow> upload option \<Rightarrow> string \<Rightarrow> outcome" where
  "plant_journal fs note image_file timestamp =
     (case note of
        None \<Rightarrow> (Inr (Error (JStr ''Note text is required'') None, 400), [])
      | Some text \<Rightarrow>
          if text = [] then (Inr (Error (JStr ''Note text is required'') None, 400), [])
          else
            (let entry_folder = ''journal_entries/'' @ timestamp;
                 make = Makedirs entry_folder;
                 write = Write_file (entry_folder @ ''/note.txt'') text
             in case fs make of
                  Some e \<Rightarrow> (Inl e, [make])
                | None \<Rightarrow>
                   (case fs write of
                      Some e \<Rightarrow> (Inl e, [make, write])
                    | None \<Rightarrow>
                       (case image_file of
                          None \<Rightarrow> (Inr (Journal_saved timestamp False, 200), [make, write])
                        | Some f \<Rightarrow>
                            if filename f \<noteq> []
                            then
                              (let save = Save_upload (path_join entry_folder (filename f))
                                                      (content f)
                               in case fs save of
                                    Some e \<Rightarrow> (Inl e, [make, write, save])
                                  | None \<Rightarrow>
                                      (Inr (Journal_saved timestamp True, 200),
                                       [make, write, save]))
                            else (Inr (Journal_saved timestamp False, 200), [make, write])))))"

text \<open>\<^verbatim>\<open>plant_selector\<close> (lines 198 to 224) and its catalog.\<close>

definition plant_database :: "(string \<times> (string \<times> string list) list) list" where
  "plant_database =
     [(''low light'',
         [(''low maintenance'', [''Snake Plant'', ''ZZ Plant'', ''Pothos'']),
          (''air purifying'', [''Peace Lily'', ''Spider Plant''])]),
      (''bright light'',
         [(''flowering'', [''African Violet'', ''Orchid'']),
          (''low maintenance'', [''Succulent'', ''Aloe Vera''])]),
      (''humid'',
         [(''tropical'', [''Fern'', ''Calathea'']),
          (''colorful'', [''Croton'', ''Bromeliad''])])]"

text \<open>\<^verbatim>\<open>plant_database.get(environment, {}).get(preference, [])\<close> (line 218).\<close>

definition catalog_lookup :: "string \<Rightarrow> string \<Rightarrow> string list" where
  "catalog_lookup environment preference =
     (case map_of (case map_of plant_database environment of None \<Rightarrow> [] | Some inner \<Rightarrow> inner)
                  preference of
        None \<Rightarrow> []
      | Some plants \<Rightarrow> plants)"

definition plant_selector :: "lower_table \<Rightarrow> json \<Rightarrow> outcome" where
  "plant_selector tbl data =
     (case py_get data ''environment'' (JStr []) of Inl e \<Rightarrow> (Inl e, []) | Inr env_in \<Rightarrow>
     (case py_lower tbl env_in of Inl e \<Rightarrow> (Inl e, []) | Inr environment \<Rightarrow>
     (case py_get data ''preference'' (JStr []) of Inl e \<Rightarrow> (Inl e, []) | Inr pref_in \<Rightarrow>
     (case py_lower tbl pref_in of Inl e \<Rightarrow> (Inl e, []) | Inr preference \<Rightarrow>
        (Inr (Plant_selection environment preference (catalog_lookup environment preference),
              200),
         [])))))"


text \<open>The catalog stores a list for the pair: both keys are present.\<close>

definition catalog_has :: "string \<Rightarrow> string \<Rightarrow> bool" where
  "catalog_has environment preference =
     list_ex (\<lambda>(env, inner). env = environment \<and> list_ex (\<lambda>(pref, plants). pref = preference) inner)
       plant_database"

text \<open>
  A table to evaluate the handlers on concrete requests: like Python's, it turns the
  capital E with acute accent (bytes 195, 137) into the small one (bytes 195, 169); it
  keeps every other byte.
\<close>

definition sample_table :: lower_table where
  "sample_table pre c post =
     (if c = char_of (137 :: nat) \<and> pre \<noteq> [] \<and> last pre = char_of (195 :: nat)
      then [char_of (169 :: nat)] else [c])"

text \<open>A file system on which every call succeeds.\<close>

definition fs_ok :: file_system where
  "fs_ok call = None"

section \<open>Facts about strings\<close>

lemma char_of_eq_small:
  fixes m n :: nat
  assumes "m < 256" and "n < 256"
  shows "(char_of m :: char) = char_of n \<longleftrightarrow> m = n"
proof -
  have "(char_of m :: char) = char_of n \<longleftrightarrow> m mod 256 = n mod 256"
    by (rule char_of_quasi_inj)
  also have "\<dots> \<longleftrightarrow> m = n"
    using assms by (simp only: mod_less)
  finally show ?thesis .
qed

lemma lower_ascii_upper:
  fixes n :: nat
  assumes "65 \<le> n" and "n \<le> 90"
  shows "lower_ascii (char_of n) = char_of (n + 32)"
proof -
  have "n mod 256 = n" using assms by (intro mod_less) linarith
  then show ?thesis using assms by (simp add: lower_ascii_def Let_def)
qed

lemma lower_ascii_other:
  fixes n :: nat
  assumes "n < 256" and "\<not> (65 \<le> n \<and> n \<le> 90)"
  shows "lower_ascii (char_of n) = char_of n"
proof -
  have "n mod 256 = n" using assms by (intro mod_less)
  then show ?thesis using assms by (simp add: lower_ascii_def Let_def)
qed


lemma lower_ascii_eq_iff:
  fixes l :: nat
  assumes "97 \<le> l" and "l \<le> 122"
  shows "lower_ascii c = char_of l \<longleftrightarrow> c = char_of l \<or> c = char_of (l - 32)"
proof -
  define n :: nat where "n = of_char c"
  have n: "n < 256" and c: "c = char_of n"
    by (simp_all add: n_def)
  have l: "l < 256" "l - 32 < 256"
    using assms by linarith+
  show ?thesis
  proof (cases "65 \<le> n \<and> n \<le> 90")
    case True
    then have n32: "n + 32 < 256" by linarith
    have "lower_ascii c = char_of (n + 32)"
      unfolding c using True by (intro lower_ascii_upper) simp_all
    then have "lower_ascii c = char_of l \<longleftrightarrow> n + 32 = l"
      using char_of_eq_small [OF n32 l(1)] by simp
    moreover have "c = char_of (l - 32) \<longleftrightarrow> n = l - 32"
      unfolding c by (rule char_of_eq_small [OF n l(2)])
    moreover have "c = char_of l \<longleftrightarrow> n = l"
      unfolding c by (rule char_of_eq_small [OF n l(1)])
    moreover have "n \<noteq> l" and "n + 32 = l \<longleftrightarrow> n = l - 32"
      using True assms by linarith+
    ultimately show ?thesis by simp
  next
    case False
    have "lower_ascii c = c"
      unfolding c by (rule lower_ascii_other [OF n False])
    moreover have "c = char_of (l - 32) \<longleftrightarrow> n = l - 32"
      unfolding c by (rule char_of_eq_small [OF n l(2)])
    moreover have "n \<noteq> l - 32"
      using False assms by linarith
    ultimately show ?thesis by simp
  qed
qed

lemma letters:
  "CHR ''r'' = char_of (114::nat)" "CHR ''R'' = char_of (114 - 32 :: nat)"
  "CHR ''a'' = char_of (97::nat)" "CHR ''A'' = char_of (97 - 32 :: nat)"
  "CHR ''i'' = char_of (105::nat)" "CHR ''I'' = char_of (105 - 32 :: nat)"
  "CHR ''n'' = char_of (110::nat)" "CHR ''N'' = char_of (110 - 32 :: nat)"
  by (simp_all add: char_of_def bit_0)

lemma lower_ascii_rain:
  "lower_ascii c = CHR ''r'' \<longleftrightarrow> c = CHR ''r'' \<or> c = CHR ''R''"
  "lower_ascii c = CHR ''a'' \<longleftrightarrow> c = CHR ''a'' \<or> c = CHR ''A''"
  "lower_ascii c = CHR ''i'' \<longleftrightarrow> c = CHR ''i'' \<or> c = CHR ''I''"
  "lower_ascii c = CHR ''n'' \<longleftrightarrow> c = CHR ''n'' \<or> c = CHR ''N''"
  unfolding letters
  by (rule lower_ascii_eq_iff; simp)+


lemma rain_letters:
  assumes "r \<in> {CHR ''r'', CHR ''R''}" and "a \<in> {CHR ''a'', CHR ''A''}"
    and "i \<in> {CHR ''i'', CHR ''I''}" and "n \<in> {CHR ''n'', CHR ''N''}"
  shows "map lower_ascii [r, a, i, n] = ''rain''"
    and "\<forall>c \<in> set [r, a, i, n]. (of_char c :: nat) < 128"
proof -
  have "lower_ascii r = CHR ''r''" "lower_ascii a = CHR ''a''"
       "lower_ascii i = CHR ''i''" "lower_ascii n = CHR ''n''"
    using assms unfolding lower_ascii_rain by blast+
  then show "map lower_ascii [r, a, i, n] = ''rain''"
    by (simp only: list.map)
  have "(of_char c :: nat) < 128"
    if "c \<in> {CHR ''r'', CHR ''R'', CHR ''a'', CHR ''A'', CHR ''i'', CHR ''I'', CHR ''n'', CHR ''N''}"
    for c
    using that by auto
  then show "\<forall>c \<in> set [r, a, i, n]. (of_char c :: nat) < 128"
    using assms by auto
qed

lemma starts_with_prefix: "starts_with p s = prefix p s"
  by (induction p s rule: starts_with.induct) auto

lemma py_in_sublist: "py_in p s = sublist p s"
  by (induction s) (auto simp: starts_with_prefix sublist_Cons_right)

text \<open>
  A run of ASCII characters is lowercased character by character, wherever it stands in
  the string and whatever the table does with the rest.
\<close>

lemma lower_from_ascii:
  assumes "\<forall>c \<in> set w. (of_char c :: nat) < 128"
  shows "lower_from tbl pre (w @ ss) = map lower_ascii w @ lower_from tbl (pre @ w) ss"
  using assms by (induction w arbitrary: pre) simp_all

lemma lower_from_prefix:
  "\<exists>out. lower_from tbl pre (ps @ rest) = out @ lower_from tbl (pre @ ps) rest"
proof (induction ps arbitrary: pre)
  case Nil
  show ?case by simp
next
  case (Cons c ps)
  from Cons [of "pre @ [c]"] obtain d
    where "lower_from tbl (pre @ [c]) (ps @ rest) = d @ lower_from tbl ((pre @ [c]) @ ps) rest"
    by blast
  then show ?case by simp
qed

lemma lower_ascii_string:
  assumes "\<forall>c \<in> set s. (of_char c :: nat) < 128"
  shows "lower tbl s = map lower_ascii s"
  using lower_from_ascii [OF assms, of tbl "[]" "[]"] by (simp add: lower_def)

lemma lower_contains:
  assumes "\<forall>c \<in> set w. (of_char c :: nat) < 128"
  shows "sublist (map lower_ascii w) (lower tbl (ps @ w @ ss))"
proof -
  obtain d where "lower_from tbl [] (ps @ w @ ss) = d @ lower_from tbl ([] @ ps) (w @ ss)"
    using lower_from_prefix by blast
  then have "lower tbl (ps @ w @ ss) = d @ map lower_ascii w @ lower_from tbl (ps @ w) ss"
    using lower_from_ascii [OF assms, of tbl ps ss] by (simp add: lower_def)
  then show ?thesis
    unfolding sublist_def by blast
qed

lemma lower_ascii_idem: "lower_ascii (lower_ascii c) = lower_ascii c"
proof (cases "65 \<le> (of_char c :: nat) \<and> (of_char c :: nat) \<le> 90")
  case True
  then have "(of_char c + 32 :: nat) mod 256 = of_char c + 32"
    by (intro mod_less) linarith
  with True show ?thesis
    by (simp add: lower_ascii_def Let_def)
next
  case False
  then have "lower_ascii c = c"
    by (auto simp add: lower_ascii_def Let_def)
  then show ?thesis
    by simp
qed

lemma lower_ascii_stays_ascii:
  assumes "(of_char c :: nat) < 128"
  shows "(of_char (lower_ascii c) :: nat) < 128"
proof (cases "65 \<le> (of_char c :: nat) \<and> (of_char c :: nat) \<le> 90")
  case True
  then have "(of_char c + 32 :: nat) mod 256 = of_char c + 32"
    by (intro mod_less) linarith
  with True show ?thesis
    by (simp add: lower_ascii_def Let_def)
next
  case False
  then have "lower_ascii c = c"
    by (auto simp add: lower_ascii_def Let_def)
  with assms show ?thesis
    by simp
qed

lemma lower_of_lowered:
  assumes "\<forall>c \<in> set s. (of_char c :: nat) < 128"
  shows "lower tbl (map lower_ascii s) = lower tbl s"
proof -
  have "\<forall>c \<in> set (map lower_ascii s). (of_char c :: nat) < 128"
    using assms by (auto intro: lower_ascii_stays_ascii)
  then have "lower tbl (map lower_ascii s) = map lower_ascii (map lower_ascii s)"
    by (rule lower_ascii_string)
  also have "\<dots> = map lower_ascii s"
    by (simp add: lower_ascii_idem)
  also have "\<dots> = lower tbl s"
    using assms by (rule lower_ascii_string [symmetric])
  finally show ?thesis .
qed

section \<open>Facts about the advisory rules\<close>

lemma num_lt_not_gt: "num_lt t 10 \<Longrightarrow> \<not> num_gt t 30"
  by (cases t) auto

lemma weather_tips_typed:
  "weather_tips tbl (JNum t) (JStr d) (JNum h) =
     Inr ([if num_gt t 30 then Heat_tip else if num_lt t 10 then Frost_tip else Usual_tip]
          @ (if sublist ''rain'' (lower tbl d) then [Rain_tip] else [])
          @ (if num_gt h 80 then [Ventilation_tip] else []))"
  by (simp add: weather_tips_def py_in_sublist)

lemma weather_tips_one_band:
  assumes "weather_tips tbl t d h = Inr tips"
  shows "length (filter (\<lambda>x. x \<in> {Heat_tip, Frost_tip, Usual_tip}) tips) = 1"
  using assms
  by (auto simp add: weather_tips_def Let_def split: sum.splits if_splits)

lemma get_weather_tips:
  assumes "get_weather tbl city_arg api_key api = (Inr (Weather t d h tips, st), effs)"
  shows "weather_tips tbl t d h = Inr tips"
  using assms
  by (auto simp add: get_weather_def Let_def split: if_splits reply.splits sum.splits)

lemma get_weather_ok:
  assumes "\<not> no_key api_key"
    and "getitem2 data ''main'' ''temp'' = Inr t"
    and "weather_description data = Inr d"
    and "getitem2 data ''main'' ''humidity'' = Inr h"
    and "weather_tips tbl t d h = Inr tips"
  shows "get_weather tbl city_arg api_key (Reply 200 (Inr data)) =
           (Inr (Weather t d h tips, 200),
            [Requests_get ''http'' (JStr (case city_arg of None \<Rightarrow> ''London'' | Some c \<Rightarrow> c)) api_key])"
  using assms by (simp add: get_weather_def)

lemma watering_alert_tip:
  assumes "watering_alert tbl city_arg api_key api = (Inr (Watering_alert t h d tp, st), effs)"
  shows "watering_tip tbl t h d = Inr tp"
  using assms
  by (auto simp add: watering_alert_def Let_def split: if_splits reply.splits sum.splits)

lemma watering_alert_ok:
  assumes "\<not> no_key api_key"
    and "getitem2 data ''main'' ''temp'' = Inr t"
    and "getitem2 data ''main'' ''humidity'' = Inr h"
    and "weather_description data = Inr d"
    and "watering_tip tbl t h d = Inr tp"
  shows "watering_alert tbl city_arg api_key (Reply status_code (Inr data)) =
           (Inr (Watering_alert t h d tp, 200),
            [Requests_get ''https'' (JStr (case city_arg of None \<Rightarrow> ''London'' | Some c \<Rightarrow> c)) api_key])"
  using assms by (simp add: watering_alert_def)

lemma daily_care_suggestions_of:
  assumes "daily_care tbl data key api = (Inr (Daily_care pt c t h d s, st), effs)"
  shows "care_suggestions tbl pt t h = Inr s"
  using assms
  by (auto simp add: daily_care_def split: if_splits reply.splits sum.splits)

section \<open>Facts about the handlers\<close>

text \<open>
  \<^verbatim>\<open>predict\<close>, \<^verbatim>\<open>watering_alert\<close> and \<^verbatim>\<open>get_weather\<close> wrap their upstream call in
  \<^verbatim>\<open>try\<close>/\<^verbatim>\<open>except Exception\<close>: no exception escapes them, and a failing call is
  reported with the exception as details.
\<close>

lemma predict_returns: "\<exists>r. fst (predict image_file api) = Inr r"
  by (simp add: predict_def split: option.splits reply.splits sum.splits)

lemma watering_alert_returns: "\<exists>r. fst (watering_alert tbl city_arg api_key api) = Inr r"
  by (simp add: watering_alert_def Let_def split: reply.splits sum.splits)

lemma get_weather_returns: "\<exists>r. fst (get_weather tbl city_arg api_key api) = Inr r"
  by (simp add: get_weather_def Let_def split: reply.splits sum.splits)

lemma predict_reports:
  "predict (Some image_bytes) (Request_raises e) =
     (Inr (Error (JStr ''Prediction failed'') (Some e), 200), [Requests_post image_bytes])"
  "predict (Some image_bytes) (Reply status_code (Inl e)) =
     (Inr (Error (JStr ''Prediction failed'') (Some e), 200), [Requests_post image_bytes])"
  by (simp_all add: predict_def)

lemma watering_alert_reports:
  assumes "\<not> no_key api_key"
  shows "fst (watering_alert tbl city_arg api_key (Request_raises e)) =
           Inr (Error (JStr ''Failed to get weather data'') (Some e), 200)"
    and "fst (watering_alert tbl city_arg api_key (Reply status_code (Inl e))) =
           Inr (Error (JStr ''Failed to get weather data'') (Some e), 200)"
  using assms by (simp_all add: watering_alert_def Let_def)

lemma get_weather_reports:
  assumes "\<not> no_key api_key"
  shows "fst (get_weather tbl city_arg api_key (Request_raises e)) =
           Inr (Error (JStr ''Weather fetch failed'') (Some e), 200)"
    and "fst (get_weather tbl city_arg api_key (Reply status_code (Inl e))) =
           Inr (Error (JStr ''Weather fetch failed'') (Some e), 200)"
  using assms by (simp_all add: get_weather_def Let_def)

text \<open>
  With a note, \<^verbatim>\<open>plant_journal\<close> first creates the entry folder. When the file system
  lets every call succeed it answers that the entry is saved; when a call raises, the
  exception escapes: the handler has no \<^verbatim>\<open>try\<close>.
\<close>

lemma plant_journal_first_call:
  assumes "note \<noteq> []"
  shows "\<exists>effs. snd (plant_journal fs (Some note) image_file timestamp) =
           Makedirs (''journal_entries/'' @ timestamp) # effs"
  using assms by (simp add: plant_journal_def Let_def split: option.splits)

lemma plant_journal_saves:
  assumes "note \<noteq> []"
  shows "plant_journal fs_ok (Some note) None timestamp =
           (Inr (Journal_saved timestamp False, 200),
            [Makedirs (''journal_entries/'' @ timestamp),
             Write_file (''journal_entries/'' @ timestamp @ ''/note.txt'') note])"
  using assms by (simp add: plant_journal_def fs_ok_def Let_def)

lemma plant_journal_save_raises:
  assumes "note \<noteq> []" and "filename f \<noteq> []"
    and "fs (Makedirs (''journal_entries/'' @ timestamp)) = None"
    and "fs (Write_file (''journal_entries/'' @ timestamp @ ''/note.txt'') note) = None"
    and "fs (Save_upload (path_join (''journal_entries/'' @ timestamp) (filename f)) (content f))
           = Some e"
  shows "fst (plant_journal fs (Some note) (Some f) timestamp) = Inl e"
  using assms by (simp add: plant_journal_def Let_def)

text \<open>
  \<^verbatim>\<open>plant_selector\<close> on a body whose two fields are strings or absent; on any other body
  \<^verbatim>\<open>.get\<close> or \<^verbatim>\<open>.lower()\<close> raises and the exception escapes.
\<close>

lemma lower_empty: "lower tbl [] = []"
  by (simp add: lower_def)

lemma plant_selector_strings:
  assumes "map_of kvs ''environment'' = map_option JStr e"
    and "map_of kvs ''preference'' = map_option JStr p"
  shows "plant_selector tbl (JObj kvs) =
           (Inr (Plant_selection (lower tbl (case e of None \<Rightarrow> [] | Some s \<Rightarrow> s))
                                 (lower tbl (case p of None \<Rightarrow> [] | Some s \<Rightarrow> s))
                   (catalog_lookup (lower tbl (case e of None \<Rightarrow> [] | Some s \<Rightarrow> s))
                                   (lower tbl (case p of None \<Rightarrow> [] | Some s \<Rightarrow> s))), 200),
            [])"
  using assms by (cases e; cases p) (simp_all add: plant_selector_def)

lemma plant_selector_two_fields:
  "plant_selector tbl (JObj [(''environment'', JStr e), (''preference'', JStr p)]) =
     (Inr (Plant_selection (lower tbl e) (lower tbl p)
             (catalog_lookup (lower tbl e) (lower tbl p)), 200), [])"
  using plant_selector_strings
          [of "[(''environment'', JStr e), (''preference'', JStr p)]" "Some e" "Some p" tbl]
  by simp

lemma catalog_lookup_absent:
  assumes "\<not> catalog_has environment preference"
  shows "catalog_lookup environment preference = []"
  using assms
  by (auto simp add: catalog_has_def catalog_lookup_def plant_database_def split: if_splits)

lemma plant_selector_response_inputs:
  assumes "plant_selector tbl data = (Inr (Plant_selection environment preference plants, st), effs)"
  shows "\<exists>kvs e p. data = JObj kvs \<and> map_of kvs ''environment'' = map_option JStr e \<and>
           map_of kvs ''preference'' = map_option JStr p"
proof -
  obtain kvs where d: "data = JObj kvs"
    using assms by (cases data) (simp_all add: plant_selector_def)
  have "\<exists>e. map_of kvs ''environment'' = map_option JStr e"
  proof (cases "map_of kvs ''environment''")
    case None
    then show ?thesis by (intro exI [of _ None]) simp
  next
    case (Some v)
    then obtain s where "v = JStr s"
      using assms d by (cases v) (simp_all add: plant_selector_def)
    with Some show ?thesis by (intro exI [of _ "Some s"]) simp
  qed
  moreover have "\<exists>p. map_of kvs ''preference'' = map_option JStr p"
  proof (cases "map_of kvs ''preference''")
    case None
    then show ?thesis by (intro exI [of _ None]) simp
  next
    case (Some v)
    then obtain s where "v = JStr s"
      using assms d
      by (cases v) (auto simp add: plant_selector_def split: option.splits sum.splits)
    with Some show ?thesis by (intro exI [of _ "Some s"]) simp
  qed
  ultimately show ?thesis
    using d by blast
qed

section \<open>The claims\<close>

text \<open>
  C1. For a weather reading (a number as temperature, a string as description, a number as
  humidity) the rules of \<^verbatim>\<open>/weather\<close> return a list of tips with exactly one of the three
  temperature tips: the heat tip and neither of the other two when the temperature is above
  30, the frost tip alone when it is below 10, the "water as usual" tip alone otherwise.
  Every tip list that \<^verbatim>\<open>get_weather\<close> puts in a response holds exactly one temperature
  tip.
\<close>

theorem weather_temperature_band:
  "(\<exists>tips. weather_tips tbl (JNum t) (JStr d) (JNum h) = Inr tips \<and>
      length (filter (\<lambda>x. x \<in> {Heat_tip, Frost_tip, Usual_tip}) tips) = 1 \<and>
      (num_gt t 30 \<longrightarrow> Heat_tip \<in> set tips \<and> Frost_tip \<notin> set tips \<and> Usual_tip \<notin> set tips) \<and>
      (num_lt t 10 \<longrightarrow> Frost_tip \<in> set tips \<and> Heat_tip \<notin> set tips \<and> Usual_tip \<notin> set tips) \<and>
      (\<not> num_gt t 30 \<and> \<not> num_lt t 10 \<longrightarrow>
         Usual_tip \<in> set tips \<and> Heat_tip \<notin> set tips \<and> Frost_tip \<notin> set tips)) \<and>
   (get_weather tbl city_arg api_key api =
      (Inr (Weather temperature weather_desc humidity tips', st), effs) \<longrightarrow>
      length (filter (\<lambda>x. x \<in> {Heat_tip, Frost_tip, Usual_tip}) tips') = 1)"
proof
  show "\<exists>tips. weather_tips tbl (JNum t) (JStr d) (JNum h) = Inr tips \<and>
      length (filter (\<lambda>x. x \<in> {Heat_tip, Frost_tip, Usual_tip}) tips) = 1 \<and>
      (num_gt t 30 \<longrightarrow> Heat_tip \<in> set tips \<and> Frost_tip \<notin> set tips \<and> Usual_tip \<notin> set tips) \<and>
      (num_lt t 10 \<longrightarrow> Frost_tip \<in> set tips \<and> Heat_tip \<notin> set tips \<and> Usual_tip \<notin> set tips) \<and>
      (\<not> num_gt t 30 \<and> \<not> num_lt t 10 \<longrightarrow>
         Usual_tip \<in> set tips \<and> Heat_tip \<notin> set tips \<and> Frost_tip \<notin> set tips)"
    using num_lt_not_gt [of t] by (simp add: weather_tips_typed)
  show "get_weather tbl city_arg api_key api =
      (Inr (Weather temperature weather_desc humidity tips', st), effs) \<longrightarrow>
      length (filter (\<lambda>x. x \<in> {Heat_tip, Frost_tip, Usual_tip}) tips') = 1"
    using get_weather_tips weather_tips_one_band by blast
qed

theorem weather_temperature_band_witness:
  "(\<exists>tips. weather_tips sample_table (JNum (Finite 35)) (JStr ''light rain'') (JNum (Finite 90))
             = Inr tips \<and>
      num_gt (Finite 35) 30 \<and> Heat_tip \<in> set tips \<and> Frost_tip \<notin> set tips) \<and>
   (\<exists>tips. weather_tips sample_table (JNum (Finite 4)) (JStr ''snow'') (JNum (Finite 60))
             = Inr tips \<and>
      num_lt (Finite 4) 10 \<and> Frost_tip \<in> set tips \<and> Heat_tip \<notin> set tips) \<and>
   (\<exists>tips. weather_tips sample_table (JNum (Finite 20)) (JStr ''clear sky'') (JNum (Finite 60))
             = Inr tips \<and>
      \<not> num_gt (Finite 20) 30 \<and> \<not> num_lt (Finite 20) 10 \<and> Usual_tip \<in> set tips) \<and>
   get_weather sample_table (Some ''Oslo'') (Some ''k'')
        (Reply 200 (Inr (JObj [(''weather'', JArr [JObj [(''description'', JStr ''light rain'')]]),
      (''main'', JObj [(''temp'', JNum (Finite 35)), (''humidity'', JNum (Finite 90))])]))) =
      (Inr (Weather (JNum (Finite 35)) (JStr ''light rain'') (JNum (Finite 90))
              [Heat_tip, Rain_tip, Ventilation_tip], 200),
       [Requests_get ''http'' (JStr ''Oslo'') (Some ''k'')]) \<and>
   length (filter (\<lambda>x. x \<in> {Heat_tip, Frost_tip, Usual_tip}) [Heat_tip, Rain_tip, Ventilation_tip]) = 1"
proof -
  have g: "get_weather sample_table (Some ''Oslo'') (Some ''k'')
        (Reply 200 (Inr (JObj [(''weather'', JArr [JObj [(''description'', JStr ''light rain'')]]),
      (''main'', JObj [(''temp'', JNum (Finite 35)), (''humidity'', JNum (Finite 90))])]))) =
      (Inr (Weather (JNum (Finite 35)) (JStr ''light rain'') (JNum (Finite 90))
              [Heat_tip, Rain_tip, Ventilation_tip], 200),
       [Requests_get ''http'' (JStr ''Oslo'') (Some ''k'')])"
    by code_simp
  have h: "length (filter (\<lambda>x. x \<in> {Heat_tip, Frost_tip, Usual_tip})
                 [Heat_tip, Rain_tip, Ventilation_tip]) = 1"
    using weather_temperature_band [THEN conjunct2, rule_format, OF g] .
  show ?thesis
    using g h
      weather_temperature_band
        [of sample_table "Finite 35" "''light rain''" "Finite 90", THEN conjunct1]
      weather_temperature_band [of sample_table "Finite 4" "''snow''" "Finite 60", THEN conjunct1]
      weather_temperature_band
        [of sample_table "Finite 20" "''clear sky''" "Finite 60", THEN conjunct1]
    by auto
qed

text \<open>
  C2. For a weather reading the rule chain of \<^verbatim>\<open>/watering-alert\<close> returns one tip, the
  first that matches: "water today" when humidity is below 50 and temperature above 20;
  otherwise "hold off" when humidity is above 80; otherwise "no need to water" when the
  lowercased description contains \<^verbatim>\<open>rain\<close>; otherwise "check soil moisture".
\<close>

theorem watering_alert_first_match:
  "watering_tip tbl (JNum t) (JNum h) (JStr d) =
     Inr (if num_lt h 50 \<and> num_gt t 20 then Water_today
          else if num_gt h 80 then Hold_off
          else if sublist ''rain'' (lower tbl d) then No_need
          else Check_soil)"
  by (simp add: watering_tip_def py_in_sublist)

text \<open>
  C3. When the description contains the four letters of \<^verbatim>\<open>rain\<close> in a row, each in
  either case, the rules of \<^verbatim>\<open>/weather\<close> return a list of tips with the reduce-watering
  tip in it, whatever the temperature and the humidity are.
\<close>

theorem weather_rain_tip:
  assumes "d = ps @ [r, a, i, n] @ ss"
    and "r \<in> {CHR ''r'', CHR ''R''}" and "a \<in> {CHR ''a'', CHR ''A''}"
    and "i \<in> {CHR ''i'', CHR ''I''}" and "n \<in> {CHR ''n'', CHR ''N''}"
  shows "\<exists>tips. weather_tips tbl (JNum t) (JStr d) (JNum h) = Inr tips \<and> Rain_tip \<in> set tips"
proof -
  have "sublist (map lower_ascii [r, a, i, n]) (lower tbl (ps @ [r, a, i, n] @ ss))"
    using rain_letters(2) [OF assms(2-5)] by (rule lower_contains)
  then have "sublist ''rain'' (lower tbl d)"
    using rain_letters(1) [OF assms(2-5)] assms(1) by simp
  then show ?thesis
    by (simp add: weather_tips_typed)
qed

theorem weather_rain_tip_witness:
  "''Light RaIN showers'' = ''Light '' @ [CHR ''R'', CHR ''a'', CHR ''I'', CHR ''N''] @ '' showers'' \<and>
   CHR ''R'' \<in> {CHR ''r'', CHR ''R''} \<and> CHR ''a'' \<in> {CHR ''a'', CHR ''A''} \<and>
   CHR ''I'' \<in> {CHR ''i'', CHR ''I''} \<and> CHR ''N'' \<in> {CHR ''n'', CHR ''N''} \<and>
   (\<exists>tips. weather_tips sample_table (JNum (Finite 35)) (JStr ''Light RaIN showers'')
              (JNum (Finite 40)) = Inr tips
      \<and> Rain_tip \<in> set tips)"
proof -
  have d: "''Light RaIN showers'' = ''Light '' @ [CHR ''R'', CHR ''a'', CHR ''I'', CHR ''N''] @ '' showers''"
    by simp
  have r: "CHR ''R'' \<in> {CHR ''r'', CHR ''R''}" and a: "CHR ''a'' \<in> {CHR ''a'', CHR ''A''}"
    and i: "CHR ''I'' \<in> {CHR ''i'', CHR ''I''}" and n: "CHR ''N'' \<in> {CHR ''n'', CHR ''N''}"
    by simp_all
  show ?thesis
    using d r a i n weather_rain_tip [OF d r a i n, of sample_table "Finite 35" "Finite 40"]
    by blast
qed

text \<open>
  C4. The care suggestions of \<^verbatim>\<open>/daily-care\<close> are one base tip, chosen by the lowercased
  plant type (cactus, fern, any other), followed by at most one more: for a cactus the
  reduce-watering warning when humidity is above 70, for a fern the misting reminder when
  humidity is below 50, for the others the cold-draft warning when the temperature is below
  10. A cactus at humidity 75 gets the base cactus tip and then the reduce-watering warning,
  also through the handler.
\<close>

theorem daily_care_suggestions:
  "care_suggestions tbl (JStr p) (JNum t) (JNum h) =
     Inr (if lower tbl p = ''cactus''
          then Cactus_base # (if num_gt h 70 then [Reduce_watering] else [])
          else if lower tbl p = ''fern'' then Fern_base # (if num_lt h 50 then [Mist] else [])
          else Other_base # (if num_lt t 10 then [Cold_draft] else [])) \<and>
   care_suggestions tbl (JStr ''cactus'') temperature (JNum (Finite 75)) =
     Inr [Cactus_base, Reduce_watering] \<and>
   daily_care tbl (JObj [(''city'', JStr ''Tunis''), (''plant_type'', JStr ''cactus'')]) api_key
     (Reply 200 (Inr (JObj [(''weather'', JArr [JObj [(''description'', JStr ''haze'')]]),
                            (''main'', JObj [(''temp'', JNum (Finite 24)),
                                             (''humidity'', JNum (Finite 75))])]))) =
     (Inr (Daily_care (JStr ''cactus'') (JStr ''Tunis'') (JNum (Finite 24)) (JNum (Finite 75))
             (JStr ''haze'') [Cactus_base, Reduce_watering], 200),
      [Requests_get ''https'' (JStr ''Tunis'') api_key])"
proof (intro conjI)
  show "care_suggestions tbl (JStr p) (JNum t) (JNum h) =
     Inr (if lower tbl p = ''cactus''
          then Cactus_base # (if num_gt h 70 then [Reduce_watering] else [])
          else if lower tbl p = ''fern'' then Fern_base # (if num_lt h 50 then [Mist] else [])
          else Other_base # (if num_lt t 10 then [Cold_draft] else []))"
    by (simp add: care_suggestions_def)
  have c: "lower tbl ''cactus'' = ''cactus''"
    by code_simp
  have s: "care_suggestions tbl (JStr ''cactus'') x (JNum (Finite 75)) =
     Inr [Cactus_base, Reduce_watering]" for x
    by (simp add: care_suggestions_def c)
  show "care_suggestions tbl (JStr ''cactus'') temperature (JNum (Finite 75)) =
     Inr [Cactus_base, Reduce_watering]"
    by (rule s)
  show "daily_care tbl (JObj [(''city'', JStr ''Tunis''), (''plant_type'', JStr ''cactus'')]) api_key
     (Reply 200 (Inr (JObj [(''weather'', JArr [JObj [(''description'', JStr ''haze'')]]),
                            (''main'', JObj [(''temp'', JNum (Finite 24)),
                                             (''humidity'', JNum (Finite 75))])]))) =
     (Inr (Daily_care (JStr ''cactus'') (JStr ''Tunis'') (JNum (Finite 24)) (JNum (Finite 75))
             (JStr ''haze'') [Cactus_base, Reduce_watering], 200),
      [Requests_get ''https'' (JStr ''Tunis'') api_key])"
    by (simp add: daily_care_def getitem2_def weather_description_def s)
qed

theorem daily_care_suggestions_witness:
  "care_suggestions sample_table (JStr ''Fern'') (JNum (Finite 18)) (JNum (Finite 40)) =
     Inr [Fern_base, Mist] \<and>
   care_suggestions sample_table (JStr ''cactus'') JNull (JNum (Finite 75)) =
     Inr [Cactus_base, Reduce_watering] \<and>
   truthy (JStr ''Tunis'') \<and> truthy (JStr ''cactus'') \<and>
   daily_care sample_table (JObj [(''city'', JStr ''Tunis''), (''plant_type'', JStr ''cactus'')])
     (Some ''k'')
     (Reply 200 (Inr (JObj [(''weather'', JArr [JObj [(''description'', JStr ''haze'')]]),
                            (''main'', JObj [(''temp'', JNum (Finite 24)),
                                             (''humidity'', JNum (Finite 75))])]))) =
     (Inr (Daily_care (JStr ''cactus'') (JStr ''Tunis'') (JNum (Finite 24)) (JNum (Finite 75))
             (JStr ''haze'') [Cactus_base, Reduce_watering], 200),
      [Requests_get ''https'' (JStr ''Tunis'') (Some ''k'')])"
proof -
  have l: "lower sample_table ''Fern'' = ''fern''" "''fern'' \<noteq> ''cactus''"
    by code_simp+
  show ?thesis
    using l
      daily_care_suggestions [of sample_table "''Fern''" "Finite 18" "Finite 40" JNull "Some ''k''"]
    by simp
qed

text \<open>
  C5. \<^verbatim>\<open>daily_care\<close> does not catch a failing upstream call: when \<^verbatim>\<open>requests.get\<close>
  raises, when \<^verbatim>\<open>.json()\<close> raises on the reply, and when a reply with status 200 lacks
  the field \<^verbatim>\<open>main\<close>, the exception escapes the handler instead of being reported in an
  error payload.
\<close>

theorem daily_care_lets_upstream_failure_escape:
  "daily_care tbl (JObj [(''city'', JStr ''Paris''), (''plant_type'', JStr ''fern'')]) api_key
     (Request_raises e) =
     (Inl e, [Requests_get ''https'' (JStr ''Paris'') api_key]) \<and>
   daily_care tbl (JObj [(''city'', JStr ''Paris''), (''plant_type'', JStr ''fern'')]) api_key
     (Reply status_code (Inl e)) =
     (Inl e, [Requests_get ''https'' (JStr ''Paris'') api_key]) \<and>
   daily_care tbl (JObj [(''city'', JStr ''Paris''), (''plant_type'', JStr ''fern'')]) api_key
     (Reply 200 (Inr (JObj []))) =
     (Inl (KeyError ''main''), [Requests_get ''https'' (JStr ''Paris'') api_key])"
  by (simp add: daily_care_def getitem2_def)

theorem daily_care_lets_upstream_failure_escape_witness:
  "truthy (JStr ''Paris'') \<and> truthy (JStr ''fern'') \<and>
   daily_care sample_table (JObj [(''city'', JStr ''Paris''), (''plant_type'', JStr ''fern'')])
     (Some ''k'') (Request_raises (Upstream_error ''connection refused'')) =
     (Inl (Upstream_error ''connection refused''),
      [Requests_get ''https'' (JStr ''Paris'') (Some ''k'')]) \<and>
   daily_care sample_table (JObj [(''city'', JStr ''Paris''), (''plant_type'', JStr ''fern'')])
     (Some ''k'') (Reply 200 (Inr (JObj []))) =
     (Inl (KeyError ''main''), [Requests_get ''https'' (JStr ''Paris'') (Some ''k'')])"
  using daily_care_lets_upstream_failure_escape
          [of sample_table "Some ''k''" "Upstream_error ''connection refused''" 502]
  by simp




text \<open>
  C7. The catalog lookup of \<^verbatim>\<open>/plant-selector\<close> sees only the lowercased environment and
  preference: two requests whose fields agree after lowercasing get the same answer, and a
  request in ASCII gets the answer of the same request with its letters in lower case.
  Environment \<^verbatim>\<open>LOW LIGHT\<close> with preference \<^verbatim>\<open>low maintenance\<close> gives Snake Plant, ZZ
  Plant, Pothos; environment \<^verbatim>\<open>humid\<close> with preference \<^verbatim>\<open>tropical\<close> gives Fern, Calathea.
\<close>

theorem catalog_lookup_ignores_case:
  "plant_selector tbl (JObj [(''environment'', JStr e), (''preference'', JStr p)]) =
     (Inr (Plant_selection (lower tbl e) (lower tbl p)
             (catalog_lookup (lower tbl e) (lower tbl p)), 200), []) \<and>
   (lower tbl e = lower tbl e' \<and> lower tbl p = lower tbl p' \<longrightarrow>
      plant_selector tbl (JObj [(''environment'', JStr e'), (''preference'', JStr p')]) =
      plant_selector tbl (JObj [(''environment'', JStr e), (''preference'', JStr p)])) \<and>
   ((\<forall>c \<in> set e. (of_char c :: nat) < 128) \<and> (\<forall>c \<in> set p. (of_char c :: nat) < 128) \<longrightarrow>
      plant_selector tbl (JObj [(''environment'', JStr (map lower_ascii e)),
                                (''preference'', JStr (map lower_ascii p))]) =
      plant_selector tbl (JObj [(''environment'', JStr e), (''preference'', JStr p)])) \<and>
   plant_selector tbl (JObj [(''environment'', JStr ''LOW LIGHT''),
                             (''preference'', JStr ''low maintenance'')]) =
     (Inr (Plant_selection ''low light'' ''low maintenance''
             [''Snake Plant'', ''ZZ Plant'', ''Pothos''], 200), []) \<and>
   plant_selector tbl (JObj [(''environment'', JStr ''humid''), (''preference'', JStr ''tropical'')]) =
     (Inr (Plant_selection ''humid'' ''tropical'' [''Fern'', ''Calathea''], 200), [])"
proof (intro conjI)
  show "plant_selector tbl (JObj [(''environment'', JStr e), (''preference'', JStr p)]) =
     (Inr (Plant_selection (lower tbl e) (lower tbl p)
             (catalog_lookup (lower tbl e) (lower tbl p)), 200), [])"
    by (rule plant_selector_two_fields)
  show "lower tbl e = lower tbl e' \<and> lower tbl p = lower tbl p' \<longrightarrow>
      plant_selector tbl (JObj [(''environment'', JStr e'), (''preference'', JStr p')]) =
      plant_selector tbl (JObj [(''environment'', JStr e), (''preference'', JStr p)])"
    by (simp only: plant_selector_two_fields) simp
  show "(\<forall>c \<in> set e. (of_char c :: nat) < 128) \<and> (\<forall>c \<in> set p. (of_char c :: nat) < 128) \<longrightarrow>
      plant_selector tbl (JObj [(''environment'', JStr (map lower_ascii e)),
                                (''preference'', JStr (map lower_ascii p))]) =
      plant_selector tbl (JObj [(''environment'', JStr e), (''preference'', JStr p)])"
    by (simp only: plant_selector_two_fields) (simp add: lower_of_lowered)
  show "plant_selector tbl (JObj [(''environment'', JStr ''LOW LIGHT''),
                             (''preference'', JStr ''low maintenance'')]) =
     (Inr (Plant_selection ''low light'' ''low maintenance''
             [''Snake Plant'', ''ZZ Plant'', ''Pothos''], 200), [])"
    by code_simp
  show "plant_selector tbl (JObj [(''environment'', JStr ''humid''), (''preference'', JStr ''tropical'')]) =
     (Inr (Plant_selection ''humid'' ''tropical'' [''Fern'', ''Calathea''], 200), [])"
    by code_simp
qed

theorem catalog_lookup_ignores_case_witness:
  "lower sample_table ''LOW LIGHT'' = lower sample_table ''Low Light'' \<and>
   lower sample_table ''low maintenance'' = lower sample_table ''Low Maintenance'' \<and>
   plant_selector sample_table (JObj [(''environment'', JStr ''Low Light''),
                                      (''preference'', JStr ''Low Maintenance'')]) =
   plant_selector sample_table (JObj [(''environment'', JStr ''LOW LIGHT''),
                                      (''preference'', JStr ''low maintenance'')]) \<and>
   list_all (\<lambda>c. (of_char c :: nat) < 128) ''LOW LIGHT'' \<and>
   list_all (\<lambda>c. (of_char c :: nat) < 128) ''low maintenance'' \<and>
   plant_selector sample_table (JObj [(''environment'', JStr (map lower_ascii ''LOW LIGHT'')),
                                      (''preference'', JStr (map lower_ascii ''low maintenance''))]) =
     (Inr (Plant_selection ''low light'' ''low maintenance''
             [''Snake Plant'', ''ZZ Plant'', ''Pothos''], 200), [])"
proof -
  have a: "lower sample_table ''LOW LIGHT'' = lower sample_table ''Low Light''"
    and b: "lower sample_table ''low maintenance'' = lower sample_table ''Low Maintenance''"
    by code_simp+
  have c: "list_all (\<lambda>c. (of_char c :: nat) < 128) ''LOW LIGHT''"
    and d: "list_all (\<lambda>c. (of_char c :: nat) < 128) ''low maintenance''"
    by code_simp+
  note t = catalog_lookup_ignores_case
             [of sample_table "''LOW LIGHT''" "''low maintenance''" "''Low Light''" "''Low Maintenance''"]
  have "plant_selector sample_table (JObj [(''environment'', JStr ''Low Light''),
                                      (''preference'', JStr ''Low Maintenance'')]) =
   plant_selector sample_table (JObj [(''environment'', JStr ''LOW LIGHT''),
                                      (''preference'', JStr ''low maintenance'')])"
    using t a b by blast
  moreover have "plant_selector sample_table
       (JObj [(''environment'', JStr (map lower_ascii ''LOW LIGHT'')),
              (''preference'', JStr (map lower_ascii ''low maintenance''))]) =
     (Inr (Plant_selection ''low light'' ''low maintenance''
             [''Snake Plant'', ''ZZ Plant'', ''Pothos''], 200), [])"
    using t c d unfolding list_all_iff by metis
  ultimately show ?thesis
    using a b c d by blast
qed

text \<open>
  C8. When the catalog has no entry for the pair (the environment is not a key, or the
  preference is not a key under that environment), the lookup returns the empty list, and
  \<^verbatim>\<open>/plant-selector\<close> answers with an empty list of recommended plants, not with an error
  or an exception.
\<close>

theorem unknown_pair_gives_empty:
  "(\<not> catalog_has environment preference \<longrightarrow> catalog_lookup environment preference = []) \<and>
   (\<not> catalog_has (lower tbl e) (lower tbl p) \<longrightarrow>
      plant_selector tbl (JObj [(''environment'', JStr e), (''preference'', JStr p)]) =
        (Inr (Plant_selection (lower tbl e) (lower tbl p) [], 200), []))"
  by (simp add: plant_selector_two_fields catalog_lookup_absent)

theorem unknown_pair_gives_empty_witness:
  "\<not> catalog_has ''low light'' ''flowering'' \<and> catalog_lookup ''low light'' ''flowering'' = [] \<and>
   \<not> catalog_has (lower sample_table ''Desert'') (lower sample_table ''Tropical'') \<and>
   plant_selector sample_table
     (JObj [(''environment'', JStr ''Desert''), (''preference'', JStr ''Tropical'')]) =
     (Inr (Plant_selection (lower sample_table ''Desert'') (lower sample_table ''Tropical'') [],
           200), [])"
proof -
  have a: "\<not> catalog_has ''low light'' ''flowering''"
    by code_simp
  have b: "\<not> catalog_has (lower sample_table ''Desert'') (lower sample_table ''Tropical'')"
    by code_simp
  show ?thesis
    using a b
      unknown_pair_gives_empty
        [of "''low light''" "''flowering''" sample_table "''Desert''" "''Tropical''"]
    by simp
qed

text \<open>
  C9. \<^verbatim>\<open>plant_journal\<close> with the note missing or empty answers with the error payload and
  status 400 and performs no effect: no directory is created, no file written.
\<close>

theorem journal_without_note:
  "plant_journal fs None image_file timestamp =
     (Inr (Error (JStr ''Note text is required'') None, 400), []) \<and>
   plant_journal fs (Some []) image_file timestamp =
     (Inr (Error (JStr ''Note text is required'') None, 400), [])"
  by (simp add: plant_journal_def)

text \<open>
  C10. When the fields \<^verbatim>\<open>environment\<close> and \<^verbatim>\<open>preference\<close> of a \<^verbatim>\<open>/plant-selector\<close>
  request are strings or absent, the response echoes what \<^verbatim>\<open>str.lower()\<close> makes of them,
  the empty string for an absent field.
\<close>

theorem plant_selector_echoes_lowercase:
  assumes "map_of kvs ''environment'' = map_option JStr e"
    and "map_of kvs ''preference'' = map_option JStr p"
  shows "\<exists>plants. plant_selector tbl (JObj kvs) =
           (Inr (Plant_selection (lower tbl (case e of None \<Rightarrow> [] | Some s \<Rightarrow> s))
                                 (lower tbl (case p of None \<Rightarrow> [] | Some s \<Rightarrow> s)) plants, 200),
            []) \<and>
         lower tbl [] = []"
  using plant_selector_strings [OF assms] lower_empty by simp

theorem plant_selector_echoes_lowercase_witness:
  "map_of [(''environment'', JStr (char_of (195 :: nat) # char_of (137 :: nat) # ''TE''))]
     ''environment'' =
     map_option JStr (Some (char_of (195 :: nat) # char_of (137 :: nat) # ''TE'')) \<and>
   map_of [(''environment'', JStr (char_of (195 :: nat) # char_of (137 :: nat) # ''TE''))]
     ''preference'' = map_option JStr None \<and>
   (\<exists>plants. plant_selector sample_table
       (JObj [(''environment'', JStr (char_of (195 :: nat) # char_of (137 :: nat) # ''TE''))]) =
      (Inr (Plant_selection (char_of (195 :: nat) # char_of (169 :: nat) # ''te'') [] plants, 200),
       []))"
proof -
  have a: "map_of [(''environment'', JStr (char_of (195 :: nat) # char_of (137 :: nat) # ''TE''))]
     ''environment'' =
     map_option JStr (Some (char_of (195 :: nat) # char_of (137 :: nat) # ''TE''))"
    by simp
  have b: "map_of [(''environment'', JStr (char_of (195 :: nat) # char_of (137 :: nat) # ''TE''))]
     ''preference'' = map_option JStr None"
    by simp
  have l: "lower sample_table (char_of (195 :: nat) # char_of (137 :: nat) # ''TE'') =
             char_of (195 :: nat) # char_of (169 :: nat) # ''te''"
    by code_simp
  show ?thesis
    using a b plant_selector_echoes_lowercase [OF a b, of sample_table] l by auto
qed

end
